theory Spec2Isabelle
  imports Complex_Main "HOL-Library.Sublist"
begin

section \<open>Python values\<close>

text \<open>
  The values that travel through the client: decoded JSON bodies, request payloads and
  the attributes of exceptions. A \<open>dict\<close> is an association list in insertion order
  (keys are strings, as in JSON); \<open>None\<close> is \<open>PNone\<close>.
\<close>

datatype pyval =
    PNone
  | PBool bool
  | PInt int
  | PFloat rat
  | PStr string
  | PList "pyval list"
  | PDict "(string \<times> pyval) list"

text \<open>Truth value of an object, as \<open>if x:\<close> tests it.\<close>

fun truthy :: "pyval \<Rightarrow> bool" where
  "truthy PNone = False"
| "truthy (PBool b) = b"
| "truthy (PInt i) = (i \<noteq> 0)"
| "truthy (PFloat r) = (r \<noteq> 0)"
| "truthy (PStr s) = (s \<noteq> [])"
| "truthy (PList xs) = (xs \<noteq> [])"
| "truthy (PDict kvs) = (kvs \<noteq> [])"

text \<open>\<open>d[k] = v\<close> on a dict: replaces the value of an existing key, appends a new one.\<close>

fun dict_set :: "(string \<times> pyval) list \<Rightarrow> string \<Rightarrow> pyval \<Rightarrow> (string \<times> pyval) list" where
  "dict_set [] k v = [(k, v)]"
| "dict_set ((k', v') # kvs) k v =
     (if k' = k then (k, v) # kvs else (k', v') # dict_set kvs k v)"

text \<open>An optional argument (\<open>Optional[int]\<close>, \<open>Optional[str]\<close>) as the object passed.\<close>

definition opt_int :: "int option \<Rightarrow> pyval" where
  "opt_int t = (case t of None \<Rightarrow> PNone | Some i \<Rightarrow> PInt i)"

definition opt_str :: "string option \<Rightarrow> pyval" where
  "opt_str t = (case t of None \<Rightarrow> PNone | Some s \<Rightarrow> PStr s)"

section \<open>Strings\<close>

text \<open>\<open>s.rstrip('/')\<close> and \<open>s.lstrip('/')\<close>: every trailing (leading) occurrence goes.\<close>

definition lstrip :: "char \<Rightarrow> string \<Rightarrow> string" where
  "lstrip c s = dropWhile (\<lambda>x. x = c) s"

definition rstrip :: "char \<Rightarrow> string \<Rightarrow> string" where
  "rstrip c s = rev (dropWhile (\<lambda>x. x = c) (rev s))"

text \<open>
  \<open>str(n)\<close> of an integer, as an f-string formats it. The integers formatted by the
  client are a number of seconds, a status code and the identifier of a batch or list;
  they are taken to have at most 4300 digits, below the length at which an interpreter
  that limits such conversions would refuse one. (What \<open>int\<close> returns for a header
  always has.)
\<close>

definition digit_char :: "nat \<Rightarrow> char" where
  "digit_char d = ''0123456789'' ! (d mod 10)"

fun str_nat :: "nat \<Rightarrow> string" where
  "str_nat n = (if n < 10 then [digit_char n] else str_nat (n div 10) @ [digit_char n])"

declare str_nat.simps [simp del]

definition str_int :: "int \<Rightarrow> string" where
  "str_int i = (if i < 0 then CHR ''-'' # str_nat (nat (- i)) else str_nat (nat i))"

text \<open>
  \<open>int(s)\<close> of a string, base 10: surrounding whitespace is dropped, one sign is allowed,
  then decimal digits, with single underscores allowed between digits, and at most
  4300 digits in all (the interpreter's default limit on such conversions, leading
  zeros counted). Anything else raises \<open>ValueError\<close>. Header values are Latin-1 text,
  one \<open>char\<close> per character; the whitespace that \<open>int\<close> skips there is the ASCII
  whitespace (9 to 13 and 32), NEL (133) and the no-break space (160). The separators
  28 to 31, which \<open>str.strip\<close> would drop, are not skipped.
\<close>

definition is_space :: "char \<Rightarrow> bool" where
  "is_space c = ((of_char c :: nat) \<in> set [9, 10, 11, 12, 13, 32, 133, 160])"

definition max_str_digits :: nat where
  "max_str_digits = 4300"

definition is_digit :: "char \<Rightarrow> bool" where
  "is_digit c = (48 \<le> (of_char c :: nat) \<and> (of_char c :: nat) \<le> 57)"

definition strip :: "string \<Rightarrow> string" where
  "strip s = rev (dropWhile is_space (rev (dropWhile is_space s)))"

fun digit_groups :: "string \<Rightarrow> bool" where
  "digit_groups [] = False"
| "digit_groups [c] = is_digit c"
| "digit_groups (c # d # r) =
     (is_digit c \<and> (if d = CHR ''_'' then digit_groups r else digit_groups (d # r)))"

definition digits_value :: "string \<Rightarrow> nat" where
  "digits_value ds = foldl (\<lambda>a c. 10 * a + ((of_char c :: nat) - 48)) 0 ds"

section \<open>Exceptions\<close>

text \<open>
  The classes of \<open>exceptions.py\<close>. An instance is its class and its attribute dictionary,
  which \<open>EmailListCheckerException.__init__\<close> fills with \<open>message\<close>, \<open>status_code\<close> and
  \<open>response\<close>; the five subclasses add nothing (\<open>pass\<close>).
\<close>

datatype exn_class =
    EmailListCheckerException
  | AuthenticationError
  | InsufficientCreditsError
  | RateLimitError
  | ValidationError
  | APIError

text \<open>
  Everything a call can raise: an exception of the SDK, the two classes of
  \<open>requests.exceptions\<close> that \<open>_request\<close> names in its \<open>except\<close> clauses (with
  \<open>str(e)\<close>), and the built-in exceptions of the operations used (\<open>int\<close> on a string,
  \<open>.get\<close> on an object that has none, \<open>open\<close>). \<open>Timeout\<close> is
  \<open>requests.exceptions.Timeout\<close> or a subclass of it (\<open>ConnectTimeout\<close>,
  \<open>ReadTimeout\<close>); \<open>RequestException\<close> is any other exception of the library, all of
  them subclasses of \<open>requests.exceptions.RequestException\<close>: a \<open>ConnectionError\<close>, a
  failure to decode JSON.
\<close>

datatype py_exception =
    Sdk exn_class "(string \<times> pyval) list"
  | Timeout string
  | RequestException string
  | ValueError
  | AttributeError
  | OSError

text \<open>
  \<open>__init__(self, message, status_code=None, response=None)\<close>: an argument that is not
  passed is \<open>None\<close> here and takes its default.
\<close>

definition exception_init ::
    "exn_class \<Rightarrow> pyval \<Rightarrow> pyval option \<Rightarrow> pyval option \<Rightarrow> py_exception" where
  "exception_init cls message status_code response =
     Sdk cls [(''message'', message),
              (''status_code'', case status_code of None \<Rightarrow> PNone | Some v \<Rightarrow> v),
              (''response'', case response of None \<Rightarrow> PNone | Some v \<Rightarrow> v)]"

text \<open>The class statements: each class and its direct base (\<open>None\<close>: \<open>Exception\<close>).\<close>

fun base_class :: "exn_class \<Rightarrow> exn_class option" where
  "base_class EmailListCheckerException = None"
| "base_class AuthenticationError = Some EmailListCheckerException"
| "base_class InsufficientCreditsError = Some EmailListCheckerException"
| "base_class RateLimitError = Some EmailListCheckerException"
| "base_class ValidationError = Some EmailListCheckerException"
| "base_class APIError = Some EmailListCheckerException"

definition issubclass :: "exn_class \<Rightarrow> exn_class \<Rightarrow> bool" where
  "issubclass c d = (c = d \<or> base_class c = Some d)"

text \<open>Whether \<open>except cls:\<close> catches a raised exception.\<close>

fun except_catches :: "exn_class \<Rightarrow> py_exception \<Rightarrow> bool" where
  "except_catches cls (Sdk c attrs) = issubclass c cls"
| "except_catches cls e = False"

text \<open>Reading an attribute of a raised exception; \<open>None\<close> when it has no such attribute.\<close>

fun exc_attrs :: "py_exception \<Rightarrow> (string \<times> pyval) list" where
  "exc_attrs (Sdk c attrs) = attrs"
| "exc_attrs e = []"

definition getattr :: "py_exception \<Rightarrow> string \<Rightarrow> pyval option" where
  "getattr e name = map_of (exc_attrs e) name"

text \<open>\<open>int(x)\<close> and \<open>d.get(key, default)\<close>.\<close>

definition int_of_str :: "string \<Rightarrow> py_exception + int" where
  "int_of_str s =
     (let t = strip s;
          neg = (t \<noteq> [] \<and> hd t = CHR ''-'');
          body = (if t \<noteq> [] \<and> (hd t = CHR ''-'' \<or> hd t = CHR ''+'') then tl t else t)
      in if digit_groups body \<and> length (filter is_digit body) \<le> max_str_digits
         then Inr ((if neg then - 1 else 1) * int (digits_value (filter is_digit body)))
         else Inl ValueError)"

fun py_get :: "pyval \<Rightarrow> string \<Rightarrow> pyval \<Rightarrow> py_exception + pyval" where
  "py_get (PDict kvs) k dflt = Inr (case map_of kvs k of None \<Rightarrow> dflt | Some v \<Rightarrow> v)"
| "py_get v k dflt = Inl AttributeError"

section \<open>Responses, requests and the world outside\<close>

text \<open>\<open>s.lower()\<close> on ASCII text (header names, \<open>str(bool)\<close>).\<close>

definition lower_char :: "char \<Rightarrow> char" where
  "lower_char c =
     (if 65 \<le> (of_char c :: nat) \<and> (of_char c :: nat) \<le> 90
      then char_of ((of_char c :: nat) + 32) else c)"

definition lower :: "string \<Rightarrow> string" where
  "lower s = map lower_char s"

definition str_bool :: "bool \<Rightarrow> string" where
  "str_bool b = (if b then ''True'' else ''False'')"

text \<open>
  A \<open>requests.Response\<close> as the client reads it: \<open>status_code\<close>, \<open>headers\<close>, \<open>content\<close>
  (the body's bytes) and the outcome of \<open>response.json()\<close>, which returns the decoded
  body or raises. Which class a failed decode raises depends on the library version
  (a \<open>RequestException\<close> in current versions, a \<open>ValueError\<close> before).
\<close>

record response =
  status_code :: int
  headers :: "(string \<times> string) list"
  content :: string
  json_result :: "py_exception + pyval"

text \<open>\<open>response.headers.get(name)\<close>: the header dictionary ignores the case of names.\<close>

definition headers_get :: "(string \<times> string) list \<Rightarrow> string \<Rightarrow> string option" where
  "headers_get hs name = map_of (map (\<lambda>(k, v). (lower k, v)) hs) (lower name)"

text \<open>
  \<open>response.ok\<close>: false exactly when \<open>raise_for_status()\<close> raises, that is for a client
  error (400 to 499) or a server error (500 to 599).
\<close>

definition ok :: "response \<Rightarrow> bool" where
  "ok r = (\<not> (400 \<le> status_code r \<and> status_code r < 600))"

text \<open>\<open>response.json() if response.content else dflt\<close>.\<close>

definition json_or :: "response \<Rightarrow> pyval \<Rightarrow> py_exception + pyval" where
  "json_or r dflt = (if content r \<noteq> [] then json_result r else Inr dflt)"

text \<open>
  A call of the HTTP library: the arguments of \<open>session.request\<close> (with the session's
  headers) or of \<open>requests.post\<close>. A file part is the descriptor of an open handle.
\<close>

record http_request =
  req_method :: string
  req_url :: string
  req_headers :: "(string \<times> string) list"
  req_json :: "pyval option"
  req_params :: "pyval option"
  req_data :: "pyval option"
  req_files :: "(string \<times> nat) list"
  req_timeout :: int

text \<open>
  The state a call can change: the calls made to the HTTP library so far, and the file
  handles (descriptors below \<open>next_fd\<close> have been handed out, those in \<open>open_fds\<close> are
  open). \<open>disk\<close> lists the paths that \<open>open\<close> can open.
\<close>

record world =
  sent :: "http_request list"
  open_fds :: "nat set"
  next_fd :: nat
  disk :: "string list"

text \<open>
  The HTTP library and the server behind it: given the earlier calls and the present
  one, a response or a raised exception.
\<close>

type_synonym transport = "http_request list \<Rightarrow> http_request \<Rightarrow> py_exception + response"

definition py_open :: "string \<Rightarrow> world \<Rightarrow> (py_exception + nat) \<times> world" where
  "py_open path w =
     (if path \<in> set (disk w)
      then (Inr (next_fd w),
            w\<lparr>open_fds := insert (next_fd w) (open_fds w), next_fd := Suc (next_fd w)\<rparr>)
      else (Inl OSError, w))"

definition py_close :: "nat \<Rightarrow> world \<Rightarrow> world" where
  "py_close fd w = w\<lparr>open_fds := open_fds w - {fd}\<rparr>"

text \<open>A transport that answers every call the same way, and a world with nothing in it.\<close>

definition always :: "py_exception + response \<Rightarrow> transport" where
  "always outcome history req = outcome"

definition empty_world :: world where
  "empty_world = \<lparr>sent = [], open_fds = {}, next_fd = 0, disk = []\<rparr>"

section \<open>The client\<close>

record client =
  api_key :: string
  base_url :: string
  timeout :: int
  session_headers :: "(string \<times> string) list"

definition default_base_url :: string where
  "default_base_url = ''https://platform.emaillistchecker.io/api/v1''"

definition default_timeout :: int where
  "default_timeout = 30"

text \<open>
  \<open>headers[name] = value\<close> on the header dictionary of a session, which ignores the
  case of names: an existing header keeps its place and takes the new name and value, a
  new one goes to the end. \<open>headers.update({...})\<close> sets the items of its argument in
  order.
\<close>

fun headers_set :: "(string \<times> string) list \<Rightarrow> string \<Rightarrow> string \<Rightarrow> (string \<times> string) list" where
  "headers_set [] k v = [(k, v)]"
| "headers_set ((k', v') # hs) k v =
     (if lower k' = lower k then (k, v) # hs else (k', v') # headers_set hs k v)"

definition headers_update ::
    "(string \<times> string) list \<Rightarrow> (string \<times> string) list \<Rightarrow> (string \<times> string) list" where
  "headers_update hs items = foldl (\<lambda>acc (k, v). headers_set acc k v) hs items"

text \<open>
  The headers of a new \<open>requests.Session()\<close>. They are the library's, not the client's
  (the user agent names the library's version, the encodings depend on what is
  installed), so \<open>__init__\<close> below takes them as an argument; these are the ones of
  version 2.32.3 without optional codecs.
\<close>

definition requests_defaults :: "(string \<times> string) list" where
  "requests_defaults =
     [(''User-Agent'', ''python-requests/2.32.3''),
      (''Accept-Encoding'', ''gzip, deflate''),
      (''Accept'', ''*/*''),
      (''Connection'', ''keep-alive'')]"

text \<open>
  \<open>__init__\<close>: an argument left out takes its default. \<open>library_headers\<close> are the
  headers that \<open>requests.Session()\<close> starts with.
\<close>

definition EmailListChecker_init ::
    "(string \<times> string) list \<Rightarrow> string \<Rightarrow> string option \<Rightarrow> int option \<Rightarrow> client" where
  "EmailListChecker_init library_headers key url tmo =
     \<lparr>api_key = key,
      base_url = rstrip CHR ''/'' (case url of None \<Rightarrow> default_base_url | Some u \<Rightarrow> u),
      timeout = (case tmo of None \<Rightarrow> default_timeout | Some t \<Rightarrow> t),
      session_headers =
        headers_update library_headers
          [(''Authorization'', ''Bearer '' @ key),
           (''Content-Type'', ''application/json''),
           (''User-Agent'', ''EmailListChecker-Python/1.0.0'')]\<rparr>"

subsection \<open>The shared request routine\<close>

text \<open>Raising one of the SDK's exceptions with \<open>status_code=\<close> and \<open>response=\<close> given.\<close>

definition raise_with ::
    "exn_class \<Rightarrow> py_exception + pyval \<Rightarrow> int \<Rightarrow> pyval \<Rightarrow> py_exception + pyval" where
  "raise_with cls msg code data =
     (case msg of
        Inl e \<Rightarrow> Inl e
      | Inr m \<Rightarrow> Inl (exception_init cls m (Some (PInt code)) (Some data)))"

text \<open>
  \<open>retry_after = int(response.headers.get('Retry-After', 60))\<close>: the default is the
  integer 60, a header that is present is a string.
\<close>

definition header_retry_after :: "response \<Rightarrow> py_exception + int" where
  "header_retry_after r =
     (case headers_get (headers r) ''Retry-After'' of
        None \<Rightarrow> Inr 60
      | Some v \<Rightarrow> int_of_str v)"

text \<open>Lines 56 to 94 of \<open>_request\<close>: what is done with a response once it is there.\<close>

definition handle_response :: "response \<Rightarrow> py_exception + pyval" where
  "handle_response r =
     (if status_code r = 429
      then (case header_retry_after r of
              Inl e \<Rightarrow> Inl e
            | Inr retry_after \<Rightarrow>
                (case json_or r PNone of
                   Inl e \<Rightarrow> Inl e
                 | Inr body \<Rightarrow>
                     Inl (exception_init RateLimitError
                            (PStr (''Rate limit exceeded. Retry after '' @ str_int retry_after
                                   @ '' seconds''))
                            (Some (PInt 429)) (Some body))))
      else (case json_or r (PDict []) of
              Inl e \<Rightarrow> Inl e
            | Inr data \<Rightarrow>
                if status_code r = 401
                then raise_with AuthenticationError
                       (py_get data ''error'' (PStr ''Invalid API key'')) 401 data
                else if status_code r = 402
                then raise_with InsufficientCreditsError
                       (py_get data ''error'' (PStr ''Insufficient credits'')) 402 data
                else if status_code r = 422
                then raise_with ValidationError
                       (py_get data ''message'' (PStr ''Validation error'')) 422 data
                else if \<not> ok r
                then raise_with APIError
                       (py_get data ''error'' (PStr (''API error: '' @ str_int (status_code r))))
                       (status_code r) data
                else Inr data))"

text \<open>
  Lines 96 to 99: the \<open>except\<close> clauses around the whole body. An exception of another
  class passes through unchanged.
\<close>

fun except_clauses :: "client \<Rightarrow> py_exception \<Rightarrow> py_exception" where
  "except_clauses c (Timeout m) =
     exception_init EmailListCheckerException
       (PStr (''Request timeout after '' @ str_int (timeout c) @ '' seconds'')) None None"
| "except_clauses c (RequestException m) =
     exception_init EmailListCheckerException (PStr (''Request failed: '' @ m)) None None"
| "except_clauses c e = e"

definition compose_url :: "client \<Rightarrow> string \<Rightarrow> string" where
  "compose_url c endpoint = base_url c @ ''/'' @ lstrip CHR ''/'' endpoint"

text \<open>
  \<open>_request(method, endpoint, **kwargs)\<close> with the keyword arguments the client uses
  (\<open>json\<close>, \<open>params\<close>) and the per-call \<open>timeout\<close> that \<open>kwargs.pop\<close> looks for.
  \<open>session_request\<close> is the call \<open>self.session.request(...)\<close> that it makes.
\<close>

definition session_request ::
    "client \<Rightarrow> string \<Rightarrow> string \<Rightarrow> pyval option \<Rightarrow> pyval option \<Rightarrow> int option
       \<Rightarrow> http_request" where
  "session_request c method endpoint kw_json kw_params kw_timeout =
     \<lparr>req_method = method,
      req_url = compose_url c endpoint,
      req_headers = session_headers c,
      req_json = kw_json,
      req_params = kw_params,
      req_data = None,
      req_files = [],
      req_timeout = (case kw_timeout of None \<Rightarrow> timeout c | Some t \<Rightarrow> t)\<rparr>"

definition EmailListChecker_request ::
    "client \<Rightarrow> transport \<Rightarrow> string \<Rightarrow> string \<Rightarrow> pyval option \<Rightarrow> pyval option \<Rightarrow> int option
       \<Rightarrow> world \<Rightarrow> (py_exception + pyval) \<times> world" where
  "EmailListChecker_request c tr method endpoint kw_json kw_params kw_timeout w =
     (let req = session_request c method endpoint kw_json kw_params kw_timeout
      in ((case tr (sent w) req of
             Inl e \<Rightarrow> Inl (except_clauses c e)
           | Inr r \<Rightarrow>
               (case handle_response r of
                  Inl e \<Rightarrow> Inl (except_clauses c e)
                | Inr data \<Rightarrow> Inr data)),
          w\<lparr>sent := sent w @ [req]\<rparr>))"

subsection \<open>The public operations\<close>

text \<open>\<open>return response.get('data', response)\<close>, after a call that may have raised.\<close>

definition get_data :: "(py_exception + pyval) \<times> world \<Rightarrow> (py_exception + pyval) \<times> world" where
  "get_data res =
     (case res of
        (Inl e, w) \<Rightarrow> (Inl e, w)
      | (Inr response, w) \<Rightarrow> (py_get response ''data'' response, w))"

definition verify ::
    "client \<Rightarrow> transport \<Rightarrow> string \<Rightarrow> int option \<Rightarrow> bool \<Rightarrow> world
       \<Rightarrow> (py_exception + pyval) \<times> world" where
  "verify c tr email tmo smtp_check w =
     (let params = [(''email'', PStr email), (''smtp_check'', PBool smtp_check)];
          params = (if truthy (opt_int tmo) then dict_set params ''timeout'' (opt_int tmo)
                    else params)
      in get_data (EmailListChecker_request c tr ''POST'' ''/verify''
                     (Some (PDict params)) None None w))"

definition verify_batch ::
    "client \<Rightarrow> transport \<Rightarrow> string list \<Rightarrow> string option \<Rightarrow> string option \<Rightarrow> bool \<Rightarrow> world
       \<Rightarrow> (py_exception + pyval) \<times> world" where
  "verify_batch c tr emails name callback_url auto_start w =
     (let data = [(''emails'', PList (map PStr emails)), (''auto_start'', PBool auto_start)];
          data = (if truthy (opt_str name) then dict_set data ''name'' (opt_str name)
                  else data);
          data = (if truthy (opt_str callback_url)
                  then dict_set data ''callback_url'' (opt_str callback_url) else data)
      in get_data (EmailListChecker_request c tr ''POST'' ''/verify/batch''
                     (Some (PDict data)) None None w))"

text \<open>The \<open>file\<close> argument of \<open>verify_batch_file\<close>: a path, or a handle the caller opened.\<close>

datatype file_arg = Path string | Stream nat

text \<open>Lines 224 to 251: the upload's own treatment of the response.\<close>

definition upload_response :: "response \<Rightarrow> py_exception + pyval" where
  "upload_response r =
     (case json_or r (PDict []) of
        Inl e \<Rightarrow> Inl e
      | Inr response_data \<Rightarrow>
          if status_code r = 401
          then raise_with AuthenticationError
                 (py_get response_data ''error'' (PStr ''Invalid API key'')) 401 response_data
          else if status_code r = 402
          then raise_with InsufficientCreditsError
                 (py_get response_data ''error'' (PStr ''Insufficient credits'')) 402 response_data
          else if status_code r = 422
          then raise_with ValidationError
                 (py_get response_data ''message'' (PStr ''Validation error'')) 422 response_data
          else if \<not> ok r
          then raise_with APIError
                 (py_get response_data ''error''
                    (PStr (''API error: '' @ str_int (status_code r))))
                 (status_code r) response_data
          else py_get response_data ''data'' response_data)"

text \<open>
  \<open>verify_batch_file\<close>: the form fields, the file (opened here when a path is given,
  before the \<open>try\<close>), the call of \<open>requests.post\<close> inside \<open>try\<close>, and the \<open>finally\<close>
  clause, which runs whether the body returned or raised.
\<close>

definition verify_batch_file ::
    "client \<Rightarrow> transport \<Rightarrow> file_arg \<Rightarrow> string option \<Rightarrow> string option \<Rightarrow> bool \<Rightarrow> world
       \<Rightarrow> (py_exception + pyval) \<times> world" where
  "verify_batch_file c tr file name callback_url auto_start w =
     (let data = [(''auto_start'', PStr (lower (str_bool auto_start)))];
          data = (if truthy (opt_str name) then dict_set data ''name'' (opt_str name)
                  else data);
          data = (if truthy (opt_str callback_url)
                  then dict_set data ''callback_url'' (opt_str callback_url) else data)
      in case (case file of Path p \<Rightarrow> py_open p w | Stream fd \<Rightarrow> (Inr fd, w)) of
           (Inl e, w1) \<Rightarrow> (Inl e, w1)
         | (Inr fd, w1) \<Rightarrow>
             (let req = \<lparr>req_method = ''POST'',
                         req_url = base_url c @ ''/verify/batch/upload'',
                         req_headers = [(''Authorization'', ''Bearer '' @ api_key c)],
                         req_json = None,
                         req_params = None,
                         req_data = Some (PDict data),
                         req_files = [(''file'', fd)],
                         req_timeout = timeout c\<rparr>;
                  result = (case tr (sent w1) req of
                              Inl e \<Rightarrow> Inl e
                            | Inr r \<Rightarrow> upload_response r);
                  w2 = w1\<lparr>sent := sent w1 @ [req]\<rparr>
              in (result, case file of Path p \<Rightarrow> py_close fd w2 | Stream s \<Rightarrow> w2)))"

definition get_batch_status ::
    "client \<Rightarrow> transport \<Rightarrow> int \<Rightarrow> world \<Rightarrow> (py_exception + pyval) \<times> world" where
  "get_batch_status c tr batch_id w =
     get_data (EmailListChecker_request c tr ''GET'' (''/verify/batch/'' @ str_int batch_id)
                 None None None w)"

definition get_batch_results ::
    "client \<Rightarrow> transport \<Rightarrow> int \<Rightarrow> string \<Rightarrow> string \<Rightarrow> world
       \<Rightarrow> (py_exception + pyval) \<times> world" where
  "get_batch_results c tr batch_id format filter' w =
     (let params = [(''format'', PStr format), (''filter'', PStr filter')];
          res = EmailListChecker_request c tr ''GET''
                  (''/verify/batch/'' @ str_int batch_id @ ''/results'')
                  None (Some (PDict params)) None w
      in if format = ''json'' then get_data res else res)"

definition find_email ::
    "client \<Rightarrow> transport \<Rightarrow> string \<Rightarrow> string \<Rightarrow> string \<Rightarrow> world
       \<Rightarrow> (py_exception + pyval) \<times> world" where
  "find_email c tr first_name last_name domain w =
     (let data = [(''first_name'', PStr first_name), (''last_name'', PStr last_name),
                  (''domain'', PStr domain)]
      in get_data (EmailListChecker_request c tr ''POST'' ''/finder/email''
                     (Some (PDict data)) None None w))"

definition find_by_domain ::
    "client \<Rightarrow> transport \<Rightarrow> string \<Rightarrow> int \<Rightarrow> int \<Rightarrow> world
       \<Rightarrow> (py_exception + pyval) \<times> world" where
  "find_by_domain c tr domain limit offset w =
     (let data = [(''domain'', PStr domain), (''limit'', PInt limit), (''offset'', PInt offset)]
      in get_data (EmailListChecker_request c tr ''POST'' ''/finder/domain''
                     (Some (PDict data)) None None w))"

definition find_by_company ::
    "client \<Rightarrow> transport \<Rightarrow> string \<Rightarrow> int \<Rightarrow> world \<Rightarrow> (py_exception + pyval) \<times> world" where
  "find_by_company c tr company limit w =
     (let data = [(''company'', PStr company), (''limit'', PInt limit)]
      in get_data (EmailListChecker_request c tr ''POST'' ''/finder/company''
                     (Some (PDict data)) None None w))"

definition get_credits ::
    "client \<Rightarrow> transport \<Rightarrow> world \<Rightarrow> (py_exception + pyval) \<times> world" where
  "get_credits c tr w =
     get_data (EmailListChecker_request c tr ''GET'' ''/credits'' None None None w)"

definition get_usage ::
    "client \<Rightarrow> transport \<Rightarrow> world \<Rightarrow> (py_exception + pyval) \<times> world" where
  "get_usage c tr w =
     get_data (EmailListChecker_request c tr ''GET'' ''/usage'' None None None w)"

definition get_lists ::
    "client \<Rightarrow> transport \<Rightarrow> world \<Rightarrow> (py_exception + pyval) \<times> world" where
  "get_lists c tr w =
     get_data (EmailListChecker_request c tr ''GET'' ''/lists'' None None None w)"

definition delete_list ::
    "client \<Rightarrow> transport \<Rightarrow> int \<Rightarrow> world \<Rightarrow> (py_exception + pyval) \<times> world" where
  "delete_list c tr list_id w =
     EmailListChecker_request c tr ''DELETE'' (''/lists/'' @ str_int list_id) None None None w"

section \<open>Observing a call\<close>

text \<open>
  What a caller can see of a call's outcome: \<open>e.name\<close> in an \<open>except ... as e\<close> block
  (\<open>None\<close> when nothing was raised or the exception has no such attribute), and whether
  \<open>except cls:\<close> would have caught what was raised.
\<close>

definition raised_attr :: "py_exception + pyval \<Rightarrow> string \<Rightarrow> pyval option" where
  "raised_attr res name = (case res of Inl e \<Rightarrow> getattr e name | Inr v \<Rightarrow> None)"

definition caught_by :: "exn_class \<Rightarrow> py_exception + pyval \<Rightarrow> bool" where
  "caught_by cls res = (case res of Inl e \<Rightarrow> except_catches cls e | Inr v \<Rightarrow> False)"

section \<open>Basic facts about the shared request routine\<close>

lemma request_world:
  "snd (EmailListChecker_request c tr meth endpoint kj kp kt w) =
     w\<lparr>sent := sent w @ [session_request c meth endpoint kj kp kt]\<rparr>"
  by (simp add: EmailListChecker_request_def Let_def)

lemma default_client:
  "EmailListChecker_init requests_defaults ''key'' None None =
     \<lparr>api_key = ''key'',
      base_url = ''https://platform.emaillistchecker.io/api/v1'',
      timeout = 30,
      session_headers =
        [(''User-Agent'', ''EmailListChecker-Python/1.0.0''),
         (''Accept-Encoding'', ''gzip, deflate''),
         (''Accept'', ''*/*''),
         (''Connection'', ''keep-alive''),
         (''Authorization'', ''Bearer key''),
         (''Content-Type'', ''application/json'')]\<rparr>"
  by code_simp

lemma always_apply: "always outcome history req = outcome"
  by (simp add: always_def)

lemma str_int_120: "str_int 120 = ''120''"
  by code_simp

lemma str_int_60: "str_int 60 = ''60''"
  by code_simp


lemma str_int_404: "str_int 404 = ''404''"
  by code_simp

section \<open>Status classification\<close>

text \<open>
  C1, as the code has it. Once the HTTP library has returned a response \<open>r\<close>, the shared
  routine raises, first match winning:
  \<^item> for status 429 a \<open>RateLimitError\<close>, provided the \<open>Retry-After\<close> header is absent or
    an integer \<open>n\<close> and the body is empty or decodes as JSON;
  \<^item> for 401 an \<open>AuthenticationError\<close>, for 402 an \<open>InsufficientCreditsError\<close>, for 422 a
    \<open>ValidationError\<close>, and for any other status from 400 to 599 an \<open>APIError\<close> whose
    message is the body's \<open>error\<close> field when present and \<open>API error: {status}\<close>
    otherwise, provided the body is empty or decodes to a JSON object;
  \<^item> nothing for a status from 200 to 399 whose body is empty or decodes as JSON: the
    decoded body is returned.
\<close>

theorem request_status_classification:
  assumes resp: "tr (sent w) (session_request c meth endpoint kj kp kt) = Inr r"
  shows
   "(status_code r = 429 \<and> header_retry_after r = Inr n \<and> json_or r PNone = Inr body \<longrightarrow>
       fst (EmailListChecker_request c tr meth endpoint kj kp kt w) =
         Inl (Sdk RateLimitError
               [(''message'',
                 PStr (''Rate limit exceeded. Retry after '' @ str_int n @ '' seconds'')),
                (''status_code'', PInt 429), (''response'', body)]))
    \<and> (status_code r = 401 \<and> json_or r (PDict []) = Inr (PDict kvs) \<longrightarrow>
       fst (EmailListChecker_request c tr meth endpoint kj kp kt w) =
         Inl (Sdk AuthenticationError
               [(''message'',
                 case map_of kvs ''error'' of None \<Rightarrow> PStr ''Invalid API key'' | Some v \<Rightarrow> v),
                (''status_code'', PInt 401), (''response'', PDict kvs)]))
    \<and> (status_code r = 402 \<and> json_or r (PDict []) = Inr (PDict kvs) \<longrightarrow>
       fst (EmailListChecker_request c tr meth endpoint kj kp kt w) =
         Inl (Sdk InsufficientCreditsError
               [(''message'',
                 case map_of kvs ''error'' of None \<Rightarrow> PStr ''Insufficient credits''
                 | Some v \<Rightarrow> v),
                (''status_code'', PInt 402), (''response'', PDict kvs)]))
    \<and> (status_code r = 422 \<and> json_or r (PDict []) = Inr (PDict kvs) \<longrightarrow>
       fst (EmailListChecker_request c tr meth endpoint kj kp kt w) =
         Inl (Sdk ValidationError
               [(''message'',
                 case map_of kvs ''message'' of None \<Rightarrow> PStr ''Validation error''
                 | Some v \<Rightarrow> v),
                (''status_code'', PInt 422), (''response'', PDict kvs)]))
    \<and> (400 \<le> status_code r \<and> status_code r < 600
         \<and> status_code r \<notin> {429, 401, 402, 422}
         \<and> json_or r (PDict []) = Inr (PDict kvs) \<longrightarrow>
       fst (EmailListChecker_request c tr meth endpoint kj kp kt w) =
         Inl (Sdk APIError
               [(''message'',
                 case map_of kvs ''error'' of
                   None \<Rightarrow> PStr (''API error: '' @ str_int (status_code r))
                 | Some v \<Rightarrow> v),
                (''status_code'', PInt (status_code r)), (''response'', PDict kvs)]))
    \<and> (200 \<le> status_code r \<and> status_code r < 400
         \<and> json_or r (PDict []) = Inr data \<longrightarrow>
       fst (EmailListChecker_request c tr meth endpoint kj kp kt w) = Inr data)"
  using resp
  by (simp add: EmailListChecker_request_def Let_def handle_response_def raise_with_def
        exception_init_def ok_def split: option.split)

text \<open>
  The theorem at four responses: a 429 with \<open>Retry-After: 120\<close>, a 401 whose body
  carries an \<open>error\<close> field, a 404 with an empty body, and a 200.
\<close>

theorem request_status_classification_witness:
  \<open>fst (EmailListChecker_request (EmailListChecker_init requests_defaults ''key'' None None)
          (always (Inr \<lparr>status_code = 429, headers = [(''Retry-After'', ''120'')],
                          content = [], json_result = Inl ValueError\<rparr>))
          ''GET'' ''/credits'' None None None empty_world)
     = Inl (Sdk RateLimitError
             [(''message'', PStr ''Rate limit exceeded. Retry after 120 seconds''),
              (''status_code'', PInt 429), (''response'', PNone)])
   \<and> fst (EmailListChecker_request (EmailListChecker_init requests_defaults ''key'' None None)
          (always (Inr \<lparr>status_code = 401, headers = [], content = ''{"error": "revoked"}'',
                          json_result = Inr (PDict [(''error'', PStr ''revoked'')])\<rparr>))
          ''GET'' ''/credits'' None None None empty_world)
     = Inl (Sdk AuthenticationError
             [(''message'', PStr ''revoked''), (''status_code'', PInt 401),
              (''response'', PDict [(''error'', PStr ''revoked'')])])
   \<and> fst (EmailListChecker_request (EmailListChecker_init requests_defaults ''key'' None None)
          (always (Inr \<lparr>status_code = 404, headers = [], content = [],
                          json_result = Inl ValueError\<rparr>))
          ''GET'' ''/credits'' None None None empty_world)
     = Inl (Sdk APIError
             [(''message'', PStr ''API error: 404''), (''status_code'', PInt 404),
              (''response'', PDict [])])
   \<and> fst (EmailListChecker_request (EmailListChecker_init requests_defaults ''key'' None None)
          (always (Inr \<lparr>status_code = 200, headers = [], content = ''{"balance": 7}'',
                          json_result = Inr (PDict [(''balance'', PInt 7)])\<rparr>))
          ''GET'' ''/credits'' None None None empty_world)
     = Inr (PDict [(''balance'', PInt 7)])\<close>
proof -
  let ?c = "EmailListChecker_init requests_defaults ''key'' None None"
  let ?r1 = "\<lparr>status_code = 429, headers = [(''Retry-After'', ''120'')],
              content = [], json_result = Inl ValueError\<rparr>"
  let ?r2 = \<open>\<lparr>status_code = 401, headers = [], content = ''{"error": "revoked"}'',
              json_result = Inr (PDict [(''error'', PStr ''revoked'')])\<rparr>\<close>
  let ?r3 = "\<lparr>status_code = 404, headers = [], content = [],
              json_result = Inl ValueError\<rparr>"
  let ?r4 = \<open>\<lparr>status_code = 200, headers = [], content = ''{"balance": 7}'',
              json_result = Inr (PDict [(''balance'', PInt 7)])\<rparr>\<close>
  have retry: "header_retry_after ?r1 = Inr 120"
    by code_simp
  have "fst (EmailListChecker_request ?c (always (Inr ?r1))
               ''GET'' ''/credits'' None None None empty_world)
          = Inl (Sdk RateLimitError
                  [(''message'', PStr ''Rate limit exceeded. Retry after 120 seconds''),
                   (''status_code'', PInt 429), (''response'', PNone)])"
    using request_status_classification
            [where tr = "always (Inr ?r1)" and r = ?r1 and n = 120 and body = PNone
               and c = ?c and w = empty_world and meth = "''GET''"
               and endpoint = "''/credits''" and kj = None and kp = None and kt = None]
          retry
    by (simp add: always_apply json_or_def str_int_120)
  moreover
  have "fst (EmailListChecker_request ?c (always (Inr ?r2))
               ''GET'' ''/credits'' None None None empty_world)
          = Inl (Sdk AuthenticationError
                  [(''message'', PStr ''revoked''), (''status_code'', PInt 401),
                   (''response'', PDict [(''error'', PStr ''revoked'')])])"
    using request_status_classification
            [where tr = "always (Inr ?r2)" and r = ?r2
               and kvs = "[(''error'', PStr ''revoked'')]"
               and c = ?c and w = empty_world and meth = "''GET''"
               and endpoint = "''/credits''" and kj = None and kp = None and kt = None]
    by (simp add: always_apply json_or_def)
  moreover
  have "fst (EmailListChecker_request ?c (always (Inr ?r3))
               ''GET'' ''/credits'' None None None empty_world)
          = Inl (Sdk APIError
                  [(''message'', PStr ''API error: 404''), (''status_code'', PInt 404),
                   (''response'', PDict [])])"
    using request_status_classification
            [where tr = "always (Inr ?r3)" and r = ?r3 and kvs = "[]"
               and c = ?c and w = empty_world and meth = "''GET''"
               and endpoint = "''/credits''" and kj = None and kp = None and kt = None]
    by (simp add: always_apply json_or_def str_int_404)
  moreover
  have "fst (EmailListChecker_request ?c (always (Inr ?r4))
               ''GET'' ''/credits'' None None None empty_world)
          = Inr (PDict [(''balance'', PInt 7)])"
    using request_status_classification
            [where tr = "always (Inr ?r4)" and r = ?r4
               and data = "PDict [(''balance'', PInt 7)]"
               and c = ?c and w = empty_world and meth = "''GET''"
               and endpoint = "''/credits''" and kj = None and kp = None and kt = None]
    by (simp add: always_apply json_or_def)
  ultimately show ?thesis
    by simp
qed

text \<open>
  C1 as stated ("for every HTTP response") fails on four responses:
  a 500 whose body is an HTML page (no \<open>APIError\<close>: the decoding error is what the
  caller gets), a 401 whose body is a JSON array (\<open>.get\<close> raises \<open>AttributeError\<close>),
  a 429 whose \<open>Retry-After\<close> is an HTTP date (\<open>int\<close> raises \<open>ValueError\<close>), and a
  status of 600, which \<open>response.ok\<close> accepts (the decoded body is returned).
\<close>

theorem request_status_counterexample:
  "fst (EmailListChecker_request (EmailListChecker_init requests_defaults ''key'' None None)
          (always (Inr \<lparr>status_code = 500, headers = [],
                          content = ''<html>Internal Server Error</html>'',
                          json_result = Inl (RequestException ''Expecting value'')\<rparr>))
          ''GET'' ''/credits'' None None None empty_world)
     = Inl (Sdk EmailListCheckerException
             [(''message'', PStr ''Request failed: Expecting value''),
              (''status_code'', PNone), (''response'', PNone)])
   \<and> fst (EmailListChecker_request (EmailListChecker_init requests_defaults ''key'' None None)
          (always (Inr \<lparr>status_code = 401, headers = [],
                          content = ''[]'', json_result = Inr (PList [])\<rparr>))
          ''GET'' ''/credits'' None None None empty_world)
     = Inl AttributeError
   \<and> fst (EmailListChecker_request (EmailListChecker_init requests_defaults ''key'' None None)
          (always (Inr \<lparr>status_code = 429,
                          headers = [(''Retry-After'', ''Wed, 21 Oct 2026 07:28:00 GMT'')],
                          content = [], json_result = Inl ValueError\<rparr>))
          ''GET'' ''/credits'' None None None empty_world)
     = Inl ValueError
   \<and> fst (EmailListChecker_request (EmailListChecker_init requests_defaults ''key'' None None)
          (always (Inr \<lparr>status_code = 600, headers = [],
                          content = [], json_result = Inl ValueError\<rparr>))
          ''GET'' ''/credits'' None None None empty_world)
     = Inr (PDict [])"
  unfolding default_client by code_simp

section \<open>Unwrapping the envelope\<close>

lemma get_data_fst:
  "fst res = Inr (PDict kvs) \<Longrightarrow>
   fst (get_data res) = Inr (case map_of kvs ''data'' of None \<Rightarrow> PDict kvs | Some v \<Rightarrow> v)"
  by (cases res) (simp add: get_data_def)

lemma request_success:
  assumes "tr (sent w) (session_request c meth endpoint kj kp kt) = Inr r"
    and "200 \<le> status_code r" and "status_code r < 400"
    and "json_or r (PDict []) = Inr data"
  shows "fst (EmailListChecker_request c tr meth endpoint kj kp kt w) = Inr data"
  using assms
  by (simp add: EmailListChecker_request_def Let_def handle_response_def ok_def)

lemma upload_success:
  assumes "200 \<le> status_code r" and "status_code r < 400"
    and "json_or r (PDict []) = Inr (PDict kvs)"
  shows "upload_response r = Inr (case map_of kvs ''data'' of None \<Rightarrow> PDict kvs | Some v \<Rightarrow> v)"
  using assms
  by (simp add: upload_response_def ok_def)

text \<open>
  C2, as the code has it. When the response has a status from 200 to 399 and its body is
  empty or decodes to a JSON object, every public operation returns the object's \<open>data\<close>
  field when it has one and the whole object otherwise, except \<open>delete_list\<close> and
  \<open>get_batch_results\<close> with a format other than \<open>json\<close>, which return the whole
  object without unwrapping.
\<close>

theorem operations_unwrap_data:
  assumes tr: "\<And>q. tr (sent w) q = Inr r"
    and lo: "200 \<le> status_code r" and hi: "status_code r < 400"
    and body: "json_or r (PDict []) = Inr (PDict kvs)"
    and unwrapped: "x = (case map_of kvs ''data'' of None \<Rightarrow> PDict kvs | Some v \<Rightarrow> v)"
  shows
   "fst (verify c tr email tmo smtp_check w) = Inr x
    \<and> fst (verify_batch c tr emails name callback_url auto_start w) = Inr x
    \<and> ((case upload of Path p \<Rightarrow> p \<in> set (disk w) | Stream fd \<Rightarrow> True) \<longrightarrow>
         fst (verify_batch_file c tr upload name callback_url auto_start w) = Inr x)
    \<and> fst (get_batch_status c tr batch_id w) = Inr x
    \<and> fst (get_batch_results c tr batch_id ''json'' filter' w) = Inr x
    \<and> (format \<noteq> ''json'' \<longrightarrow>
         fst (get_batch_results c tr batch_id format filter' w) = Inr (PDict kvs))
    \<and> fst (find_email c tr first_name last_name domain w) = Inr x
    \<and> fst (find_by_domain c tr domain limit offset w) = Inr x
    \<and> fst (find_by_company c tr company limit w) = Inr x
    \<and> fst (get_credits c tr w) = Inr x
    \<and> fst (get_usage c tr w) = Inr x
    \<and> fst (get_lists c tr w) = Inr x
    \<and> fst (delete_list c tr list_id w) = Inr (PDict kvs)"
proof -
  have req: "fst (EmailListChecker_request c tr meth endpoint kj kp kt w) = Inr (PDict kvs)"
    for meth endpoint kj kp kt
    by (rule request_success [where r = r]) (simp_all add: tr lo hi body)
  have unw: "fst (get_data (EmailListChecker_request c tr meth endpoint kj kp kt w)) = Inr x"
    for meth endpoint kj kp kt
    using get_data_fst [OF req] unwrapped by simp
  have up: "upload_response r = Inr x"
    using upload_success [OF lo hi body] unwrapped by simp
  have upl: "(case upload of Path p \<Rightarrow> p \<in> set (disk w) | Stream fd \<Rightarrow> True) \<longrightarrow>
         fst (verify_batch_file c tr upload name callback_url auto_start w) = Inr x"
    using tr up
    by (cases upload) (simp_all add: verify_batch_file_def Let_def py_open_def)
  show ?thesis
    using upl
    by (simp add: verify_def verify_batch_def get_batch_status_def get_batch_results_def
          find_email_def find_by_domain_def find_by_company_def get_credits_def
          get_usage_def get_lists_def delete_list_def Let_def unw req)
qed


text \<open>The theorem at a response that wraps a verification result in \<open>data\<close>.\<close>

theorem operations_unwrap_data_witness:
  \<open>fst (verify (EmailListChecker_init requests_defaults ''key'' None None)
          (always (Inr \<lparr>status_code = 200, headers = [],
             content = ''{"data": {"email": "test@example.com", "result": "deliverable"}}'',
             json_result = Inr (PDict [(''data'', PDict [(''email'', PStr ''test@example.com''),
                                                        (''result'', PStr ''deliverable'')])])\<rparr>))
          ''test@example.com'' None True empty_world)
     = Inr (PDict [(''email'', PStr ''test@example.com''), (''result'', PStr ''deliverable'')])
   \<and> fst (delete_list (EmailListChecker_init requests_defaults ''key'' None None)
          (always (Inr \<lparr>status_code = 200, headers = [],
             content = ''{"data": {"email": "test@example.com", "result": "deliverable"}}'',
             json_result = Inr (PDict [(''data'', PDict [(''email'', PStr ''test@example.com''),
                                                        (''result'', PStr ''deliverable'')])])\<rparr>))
          7 empty_world)
     = Inr (PDict [(''data'', PDict [(''email'', PStr ''test@example.com''),
                                    (''result'', PStr ''deliverable'')])])
   \<and> fst (verify_batch_file (EmailListChecker_init requests_defaults ''key'' None None)
          (always (Inr \<lparr>status_code = 200, headers = [],
             content = ''{"data": {"email": "test@example.com", "result": "deliverable"}}'',
             json_result = Inr (PDict [(''data'', PDict [(''email'', PStr ''test@example.com''),
                                                        (''result'', PStr ''deliverable'')])])\<rparr>))
          (Stream 3) None None True empty_world)
     = Inr (PDict [(''email'', PStr ''test@example.com''), (''result'', PStr ''deliverable'')])\<close>
proof -
  let ?x = "PDict [(''email'', PStr ''test@example.com''), (''result'', PStr ''deliverable'')]"
  let ?kvs = "[(''data'', ?x)]"
  let ?r = \<open>\<lparr>status_code = 200, headers = [],
             content = ''{"data": {"email": "test@example.com", "result": "deliverable"}}'',
             json_result = Inr (PDict ?kvs)\<rparr>\<close>
  have body: "json_or ?r (PDict []) = Inr (PDict ?kvs)"
    by (simp add: json_or_def)
  have x: "?x = (case map_of ?kvs ''data'' of None \<Rightarrow> PDict ?kvs | Some v \<Rightarrow> v)"
    by simp
  show ?thesis
    using operations_unwrap_data
            [where tr = "always (Inr ?r)" and r = ?r and w = empty_world and kvs = ?kvs
               and x = ?x and c = "EmailListChecker_init requests_defaults ''key'' None None"
               and email = "''test@example.com''" and tmo = None and smtp_check = True
               and list_id = 7 and upload = "Stream 3" and name = None
               and callback_url = None and auto_start = True,
             OF always_apply _ _ body x]
    by simp
qed

text \<open>
  C2 as stated fails at two successful responses: \<open>get_batch_results\<close> with format
  \<open>csv\<close> returns the envelope although it has a \<open>data\<close> field, and an operation whose
  response body is a JSON array raises \<open>AttributeError\<close> instead of returning it.
\<close>

theorem operations_unwrap_counterexample:
  \<open>fst (get_batch_results (EmailListChecker_init requests_defaults ''key'' None None)
          (always (Inr \<lparr>status_code = 200, headers = [],
             content = ''{"data": "email,result"}'',
             json_result = Inr (PDict [(''data'', PStr ''email,result'')])\<rparr>))
          7 ''csv'' ''all'' empty_world)
     = Inr (PDict [(''data'', PStr ''email,result'')])
   \<and> fst (get_lists (EmailListChecker_init requests_defaults ''key'' None None)
          (always (Inr \<lparr>status_code = 200, headers = [],
             content = ''[{"id": 1}]'',
             json_result = Inr (PList [PDict [(''id'', PInt 1)]])\<rparr>))
          empty_world)
     = Inl AttributeError\<close>
  unfolding default_client by code_simp

section \<open>The retry-after value of a rate-limit error\<close>

text \<open>
  C4, as the code has it. For a 429 response whose body is empty or decodes as JSON, the
  \<open>RateLimitError\<close> raised has the message
  \<open>Rate limit exceeded. Retry after 120 seconds\<close> when the response carries
  \<open>Retry-After: 120\<close>, and \<open>Rate limit exceeded. Retry after 60 seconds\<close> when it has no
  such header; its attributes are \<open>message\<close>, \<open>status_code\<close> (429) and \<open>response\<close> (the
  decoded body, \<open>None\<close> for an empty one), so the number is carried in the message text.
\<close>

theorem rate_limit_retry_after_message:
  assumes resp: "tr (sent w) (session_request c meth endpoint kj kp kt) = Inr r"
    and status: "status_code r = 429"
    and body: "json_or r PNone = Inr body"
  shows
   "(headers_get (headers r) ''Retry-After'' = Some ''120'' \<longrightarrow>
       fst (EmailListChecker_request c tr meth endpoint kj kp kt w) =
         Inl (Sdk RateLimitError
               [(''message'', PStr ''Rate limit exceeded. Retry after 120 seconds''),
                (''status_code'', PInt 429), (''response'', body)]))
    \<and> (headers_get (headers r) ''Retry-After'' = None \<longrightarrow>
       fst (EmailListChecker_request c tr meth endpoint kj kp kt w) =
         Inl (Sdk RateLimitError
               [(''message'', PStr ''Rate limit exceeded. Retry after 60 seconds''),
                (''status_code'', PInt 429), (''response'', body)]))"
proof -
  have parse: "int_of_str ''120'' = Inr 120"
    by code_simp
  have res: "fst (EmailListChecker_request c tr meth endpoint kj kp kt w) =
               (case header_retry_after r of
                  Inl e \<Rightarrow> Inl (except_clauses c e)
                | Inr n \<Rightarrow>
                    Inl (Sdk RateLimitError
                          [(''message'',
                            PStr (''Rate limit exceeded. Retry after '' @ str_int n
                                  @ '' seconds'')),
                           (''status_code'', PInt 429), (''response'', body)]))"
    using resp status body
    by (simp add: EmailListChecker_request_def Let_def handle_response_def
          exception_init_def split: sum.split)
  show ?thesis
    by (simp add: res header_retry_after_def parse str_int_120 str_int_60)
qed

text \<open>The theorem at a 429 with the header, and at one without it.\<close>

theorem rate_limit_retry_after_message_witness:
  "fst (EmailListChecker_request (EmailListChecker_init requests_defaults ''key'' None None)
          (always (Inr \<lparr>status_code = 429, headers = [(''Retry-After'', ''120'')],
                          content = [], json_result = Inl ValueError\<rparr>))
          ''POST'' ''/verify'' None None None empty_world)
     = Inl (Sdk RateLimitError
             [(''message'', PStr ''Rate limit exceeded. Retry after 120 seconds''),
              (''status_code'', PInt 429), (''response'', PNone)])
   \<and> fst (EmailListChecker_request (EmailListChecker_init requests_defaults ''key'' None None)
          (always (Inr \<lparr>status_code = 429, headers = [(''Content-Length'', ''0'')],
                          content = [], json_result = Inl ValueError\<rparr>))
          ''POST'' ''/verify'' None None None empty_world)
     = Inl (Sdk RateLimitError
             [(''message'', PStr ''Rate limit exceeded. Retry after 60 seconds''),
              (''status_code'', PInt 429), (''response'', PNone)])"
proof -
  let ?c = "EmailListChecker_init requests_defaults ''key'' None None"
  let ?r1 = "\<lparr>status_code = 429, headers = [(''Retry-After'', ''120'')],
              content = [], json_result = Inl ValueError\<rparr>"
  let ?r2 = "\<lparr>status_code = 429, headers = [(''Content-Length'', ''0'')],
              content = [], json_result = Inl ValueError\<rparr>"
  have h1: "headers_get (headers ?r1) ''Retry-After'' = Some ''120''"
    by code_simp
  have h2: "headers_get (headers ?r2) ''Retry-After'' = None"
    by code_simp
  have "fst (EmailListChecker_request ?c (always (Inr ?r1))
               ''POST'' ''/verify'' None None None empty_world)
          = Inl (Sdk RateLimitError
                  [(''message'', PStr ''Rate limit exceeded. Retry after 120 seconds''),
                   (''status_code'', PInt 429), (''response'', PNone)])"
    using rate_limit_retry_after_message
            [where tr = "always (Inr ?r1)" and r = ?r1 and body = PNone
               and c = ?c and w = empty_world and meth = "''POST''"
               and endpoint = "''/verify''" and kj = None and kp = None and kt = None]
          h1
    by (simp add: always_apply json_or_def)
  moreover
  have "fst (EmailListChecker_request ?c (always (Inr ?r2))
               ''POST'' ''/verify'' None None None empty_world)
          = Inl (Sdk RateLimitError
                  [(''message'', PStr ''Rate limit exceeded. Retry after 60 seconds''),
                   (''status_code'', PInt 429), (''response'', PNone)])"
    using rate_limit_retry_after_message
            [where tr = "always (Inr ?r2)" and r = ?r2 and body = PNone
               and c = ?c and w = empty_world and meth = "''POST''"
               and endpoint = "''/verify''" and kj = None and kp = None and kt = None]
          h2
    by (simp add: always_apply json_or_def)
  ultimately show ?thesis
    by simp
qed

text \<open>
  C4 as stated fails at a 429 response with \<open>Retry-After: 120\<close>: the error raised has
  the attributes \<open>message\<close>, \<open>status_code\<close> and \<open>response\<close> and no other, none of them
  the number 120, which appears in the message text only. And when the body of such a
  response is not JSON (an HTML page of a proxy), no \<open>RateLimitError\<close> is raised at all.
\<close>

theorem rate_limit_retry_after_counterexample:
  "fst (EmailListChecker_request (EmailListChecker_init requests_defaults ''key'' None None)
          (always (Inr \<lparr>status_code = 429, headers = [(''Retry-After'', ''120'')],
                          content = [], json_result = Inl ValueError\<rparr>))
          ''POST'' ''/verify'' None None None empty_world)
     = Inl (Sdk RateLimitError
             [(''message'', PStr ''Rate limit exceeded. Retry after 120 seconds''),
              (''status_code'', PInt 429), (''response'', PNone)])
   \<and> raised_attr
      (fst (EmailListChecker_request (EmailListChecker_init requests_defaults ''key'' None None)
          (always (Inr \<lparr>status_code = 429, headers = [(''Retry-After'', ''120'')],
                          content = [], json_result = Inl ValueError\<rparr>))
          ''POST'' ''/verify'' None None None empty_world)) ''retry_after''
     = None
   \<and> fst (EmailListChecker_request (EmailListChecker_init requests_defaults ''key'' None None)
          (always (Inr \<lparr>status_code = 429, headers = [(''Retry-After'', ''120'')],
                          content = ''<html>429 Too Many Requests</html>'',
                          json_result = Inl (RequestException ''Expecting value'')\<rparr>))
          ''POST'' ''/verify'' None None None empty_world)
     = Inl (Sdk EmailListCheckerException
             [(''message'', PStr ''Request failed: Expecting value''),
              (''status_code'', PNone), (''response'', PNone)])"
  unfolding default_client by code_simp

section \<open>The upload's own classification\<close>

text \<open>
  C3 at three outcomes of the upload's HTTP call. A 429 response with
  \<open>Retry-After: 120\<close> reaches the \<open>not response.ok\<close> branch and raises an \<open>APIError\<close>
  (the upload has no branch for 429 and never reads the header), where the shared
  routine raises a \<open>RateLimitError\<close>; a timeout and a connection failure leave
  \<open>verify_batch_file\<close> as the exceptions of the HTTP library that they are (its \<open>try\<close>
  has a \<open>finally\<close> clause and no \<open>except\<close> clause), where the shared routine raises
  the SDK's base exception.
\<close>

theorem upload_classification_differs:
  "fst (verify_batch_file (EmailListChecker_init requests_defaults ''key'' None None)
          (always (Inr \<lparr>status_code = 429, headers = [(''Retry-After'', ''120'')],
                          content = [], json_result = Inl ValueError\<rparr>))
          (Stream 3) None None True
          \<lparr>sent = [], open_fds = {3}, next_fd = 4, disk = []\<rparr>)
     = Inl (Sdk APIError
             [(''message'', PStr ''API error: 429''), (''status_code'', PInt 429),
              (''response'', PDict [])])
   \<and> fst (verify_batch_file (EmailListChecker_init requests_defaults ''key'' None None)
          (always (Inl (Timeout ''Read timed out. (read timeout=30)'')))
          (Stream 3) None None True
          \<lparr>sent = [], open_fds = {3}, next_fd = 4, disk = []\<rparr>)
     = Inl (Timeout ''Read timed out. (read timeout=30)'')
   \<and> fst (verify_batch_file (EmailListChecker_init requests_defaults ''key'' None None)
          (always (Inl (RequestException ''Connection refused'')))
          (Stream 3) None None True
          \<lparr>sent = [], open_fds = {3}, next_fd = 4, disk = []\<rparr>)
     = Inl (RequestException ''Connection refused'')
   \<and> fst (EmailListChecker_request (EmailListChecker_init requests_defaults ''key'' None None)
          (always (Inr \<lparr>status_code = 429, headers = [(''Retry-After'', ''120'')],
                          content = [], json_result = Inl ValueError\<rparr>))
          ''POST'' ''/verify/batch'' None None None
          \<lparr>sent = [], open_fds = {3}, next_fd = 4, disk = []\<rparr>)
     = Inl (Sdk RateLimitError
             [(''message'', PStr ''Rate limit exceeded. Retry after 120 seconds''),
              (''status_code'', PInt 429), (''response'', PNone)])
   \<and> fst (EmailListChecker_request (EmailListChecker_init requests_defaults ''key'' None None)
          (always (Inl (Timeout ''Read timed out. (read timeout=30)'')))
          ''POST'' ''/verify/batch'' None None None
          \<lparr>sent = [], open_fds = {3}, next_fd = 4, disk = []\<rparr>)
     = Inl (Sdk EmailListCheckerException
             [(''message'', PStr ''Request timeout after 30 seconds''),
              (''status_code'', PNone), (''response'', PNone)])"
  unfolding default_client by code_simp

section \<open>Batch results in a text format\<close>

text \<open>
  C5 at a CSV download. The shared routine decodes every non-empty body as JSON before
  it returns, so \<open>get_batch_results\<close> with format \<open>csv\<close> never gets the body's text to
  return: for a 200 response whose body is CSV text the call raises what the failed
  decoding raises (the SDK's base exception when the decoder raises a
  \<open>RequestException\<close>, the \<open>ValueError\<close> itself otherwise). With format \<open>json\<close> and
  a JSON body the \<open>data\<close> field is returned.
\<close>

theorem batch_results_text_format:
  \<open>fst (get_batch_results (EmailListChecker_init requests_defaults ''key'' None None)
          (always (Inr \<lparr>status_code = 200, headers = [(''Content-Type'', ''text/csv'')],
                          content = ''a@x.com,deliverable'',
                          json_result = Inl (RequestException ''Expecting value'')\<rparr>))
          42 ''csv'' ''all'' empty_world)
     = Inl (Sdk EmailListCheckerException
             [(''message'', PStr ''Request failed: Expecting value''),
              (''status_code'', PNone), (''response'', PNone)])
   \<and> fst (get_batch_results (EmailListChecker_init requests_defaults ''key'' None None)
          (always (Inr \<lparr>status_code = 200, headers = [(''Content-Type'', ''text/plain'')],
                          content = ''a@x.com'',
                          json_result = Inl ValueError\<rparr>))
          42 ''txt'' ''valid'' empty_world)
     = Inl ValueError
   \<and> fst (get_batch_results (EmailListChecker_init requests_defaults ''key'' None None)
          (always (Inr \<lparr>status_code = 200, headers = [(''Content-Type'', ''application/json'')],
                          content = ''{"data": [{"email": "a@x.com"}]}'',
                          json_result =
                            Inr (PDict [(''data'', PList [PDict [(''email'', PStr ''a@x.com'')]])])\<rparr>))
          42 ''json'' ''all'' empty_world)
     = Inr (PList [PDict [(''email'', PStr ''a@x.com'')]])\<close>
  unfolding default_client by code_simp

section \<open>The target URL\<close>

lemma rstrip_no_trailing: "rstrip c s \<noteq> xs @ [c]"
proof
  assume "rstrip c s = xs @ [c]"
  then have "rev (rstrip c s) = c # rev xs"
    by simp
  then have "dropWhile (\<lambda>x. x = c) (rev s) = c # rev xs"
    by (simp add: rstrip_def)
  then show False
    using hd_dropWhile [of "\<lambda>x. x = c" "rev s"] by simp
qed

lemma lstrip_no_leading: "lstrip c s \<noteq> c # ys"
proof
  assume "lstrip c s = c # ys"
  then have "dropWhile (\<lambda>x. x = c) s = c # ys"
    by (simp add: lstrip_def)
  then show False
    using hd_dropWhile [of "\<lambda>x. x = c" s] by simp
qed

lemma sent_request:
  "sent (snd (EmailListChecker_request c tr meth endpoint kj kp kt w)) =
     sent w @ [session_request c meth endpoint kj kp kt]"
  by (simp add: request_world)

lemma sent_get_data: "sent (snd (get_data res)) = sent (snd res)"
  by (cases res) (simp add: get_data_def split: sum.split)

lemma url_session_request:
  "req_url (session_request c meth endpoint kj kp kt) = compose_url c endpoint"
  by (simp add: session_request_def)

lemma takeWhile_eq_replicate:
  "takeWhile (\<lambda>x. x = c) xs = replicate (length (takeWhile (\<lambda>x. x = c) xs)) c"
  by (induction xs) simp_all

lemma lstrip_decompose:
  "s = replicate (length s - length (lstrip c s)) c @ lstrip c s"
proof -
  have split: "s = takeWhile (\<lambda>x. x = c) s @ dropWhile (\<lambda>x. x = c) s"
    by simp
  have "length s = length (takeWhile (\<lambda>x. x = c) s) + length (dropWhile (\<lambda>x. x = c) s)"
    by (metis length_append takeWhile_dropWhile_id)
  then have "length s - length (lstrip c s) = length (takeWhile (\<lambda>x. x = c) s)"
    by (simp add: lstrip_def)
  then show ?thesis
    using split takeWhile_eq_replicate [of c s] by (simp add: lstrip_def)
qed

lemma rstrip_decompose:
  "s = rstrip c s @ replicate (length s - length (rstrip c s)) c"
proof -
  have "rev s = replicate (length (rev s) - length (lstrip c (rev s))) c @ lstrip c (rev s)"
    by (rule lstrip_decompose)
  then have "rev (rev s) =
               rev (replicate (length (rev s) - length (lstrip c (rev s))) c @ lstrip c (rev s))"
    by simp
  then show ?thesis
    by (simp add: rstrip_def lstrip_def)
qed

text \<open>
  C6. The two base URLs give the same client, hence the same URL for every endpoint:
  with either, the base URL kept is \<open>https://host/api\<close> and the URL for \<open>/verify\<close> is
  \<open>https://host/api/verify\<close>. In general the URL is the base URL without its trailing
  slashes, one slash, and the endpoint without its leading slashes: what is dropped
  from the base URL is a run of slashes at its end and nothing else, what is dropped
  from the endpoint a run of slashes at its start, and of what is kept the first part
  never ends with a slash and the last never begins with one. Every operation sends
  its request to such a URL; the upload builds its own, of the same form.
\<close>

theorem base_url_normalization:
  "EmailListChecker_init defaults key (Some ''https://host/api'') tmo =
     EmailListChecker_init defaults key (Some ''https://host/api/'') tmo
   \<and> base_url (EmailListChecker_init defaults key (Some ''https://host/api'') tmo) =
     ''https://host/api''
   \<and> base_url (EmailListChecker_init defaults key (Some ''https://host/api/'') tmo) =
     ''https://host/api''
   \<and> compose_url (EmailListChecker_init defaults key (Some ''https://host/api'') tmo) ''/verify'' =
     ''https://host/api/verify''
   \<and> compose_url (EmailListChecker_init defaults key (Some ''https://host/api/'') tmo) ''/verify'' =
     ''https://host/api/verify''
   \<and> compose_url (EmailListChecker_init defaults key (Some ''https://host/api'') tmo) endpoint =
     compose_url (EmailListChecker_init defaults key (Some ''https://host/api/'') tmo) endpoint
   \<and> base_url (EmailListChecker_init defaults key (Some b) tmo) = rstrip CHR ''/'' b
   \<and> compose_url (EmailListChecker_init defaults key (Some b) tmo) endpoint =
     rstrip CHR ''/'' b @ ''/'' @ lstrip CHR ''/'' endpoint
   \<and> b = rstrip CHR ''/'' b @ replicate (length b - length (rstrip CHR ''/'' b)) CHR ''/''
   \<and> endpoint =
     replicate (length endpoint - length (lstrip CHR ''/'' endpoint)) CHR ''/''
       @ lstrip CHR ''/'' endpoint
   \<and> rstrip CHR ''/'' b \<noteq> xs @ ''/''
   \<and> lstrip CHR ''/'' endpoint \<noteq> ''/'' @ ys
   \<and> map req_url (sent (snd (verify c tr email t smtp_check w))) =
       map req_url (sent w) @ [base_url c @ ''/verify'']
   \<and> map req_url (sent (snd (verify_batch c tr emails name callback_url auto_start w))) =
       map req_url (sent w) @ [base_url c @ ''/verify/batch'']
   \<and> map req_url (sent (snd (verify_batch_file c tr (Stream fd) name callback_url auto_start w))) =
       map req_url (sent w) @ [base_url c @ ''/verify/batch/upload'']
   \<and> map req_url (sent (snd (get_batch_status c tr batch_id w))) =
       map req_url (sent w) @ [base_url c @ ''/verify/batch/'' @ str_int batch_id]
   \<and> map req_url (sent (snd (get_batch_results c tr batch_id format filter' w))) =
       map req_url (sent w) @ [base_url c @ ''/verify/batch/'' @ str_int batch_id @ ''/results'']
   \<and> map req_url (sent (snd (find_email c tr first_name last_name domain w))) =
       map req_url (sent w) @ [base_url c @ ''/finder/email'']
   \<and> map req_url (sent (snd (find_by_domain c tr domain limit offset w))) =
       map req_url (sent w) @ [base_url c @ ''/finder/domain'']
   \<and> map req_url (sent (snd (find_by_company c tr company limit w))) =
       map req_url (sent w) @ [base_url c @ ''/finder/company'']
   \<and> map req_url (sent (snd (get_credits c tr w))) =
       map req_url (sent w) @ [base_url c @ ''/credits'']
   \<and> map req_url (sent (snd (get_usage c tr w))) =
       map req_url (sent w) @ [base_url c @ ''/usage'']
   \<and> map req_url (sent (snd (get_lists c tr w))) =
       map req_url (sent w) @ [base_url c @ ''/lists'']
   \<and> map req_url (sent (snd (delete_list c tr list_id w))) =
       map req_url (sent w) @ [base_url c @ ''/lists/'' @ str_int list_id]"
proof -
  have same: "EmailListChecker_init defaults key (Some ''https://host/api'') tmo =
                EmailListChecker_init defaults key (Some ''https://host/api/'') tmo"
    by (simp add: EmailListChecker_init_def rstrip_def)
  have kept:
    "base_url (EmailListChecker_init defaults key (Some ''https://host/api'') tmo) =
       ''https://host/api''"
    "base_url (EmailListChecker_init defaults key (Some ''https://host/api/'') tmo) =
       ''https://host/api''"
    "compose_url (EmailListChecker_init defaults key (Some ''https://host/api'') tmo) ''/verify'' =
       ''https://host/api/verify''"
    "compose_url (EmailListChecker_init defaults key (Some ''https://host/api/'') tmo) ''/verify'' =
       ''https://host/api/verify''"
    by (simp_all add: compose_url_def EmailListChecker_init_def rstrip_def lstrip_def)
  have form:
    "base_url (EmailListChecker_init defaults key (Some b) tmo) = rstrip CHR ''/'' b"
    "compose_url (EmailListChecker_init defaults key (Some b) tmo) endpoint =
       rstrip CHR ''/'' b @ ''/'' @ lstrip CHR ''/'' endpoint"
    by (simp_all add: compose_url_def EmailListChecker_init_def)
  have dropped:
    "b = rstrip CHR ''/'' b @ replicate (length b - length (rstrip CHR ''/'' b)) CHR ''/''"
    "endpoint =
       replicate (length endpoint - length (lstrip CHR ''/'' endpoint)) CHR ''/''
         @ lstrip CHR ''/'' endpoint"
    by (rule rstrip_decompose, rule lstrip_decompose)
  have junction: "rstrip CHR ''/'' b \<noteq> xs @ ''/''" "lstrip CHR ''/'' endpoint \<noteq> ''/'' @ ys"
    using rstrip_no_trailing [of "CHR ''/''" b xs] lstrip_no_leading [of "CHR ''/''" endpoint ys]
    by simp_all
  have ops:
    "map req_url (sent (snd (verify c tr email t smtp_check w))) =
       map req_url (sent w) @ [base_url c @ ''/verify'']"
    "map req_url (sent (snd (verify_batch c tr emails name callback_url auto_start w))) =
       map req_url (sent w) @ [base_url c @ ''/verify/batch'']"
    "map req_url (sent (snd (find_email c tr first_name last_name domain w))) =
       map req_url (sent w) @ [base_url c @ ''/finder/email'']"
    "map req_url (sent (snd (find_by_domain c tr domain limit offset w))) =
       map req_url (sent w) @ [base_url c @ ''/finder/domain'']"
    "map req_url (sent (snd (find_by_company c tr company limit w))) =
       map req_url (sent w) @ [base_url c @ ''/finder/company'']"
    "map req_url (sent (snd (get_credits c tr w))) =
       map req_url (sent w) @ [base_url c @ ''/credits'']"
    "map req_url (sent (snd (get_usage c tr w))) =
       map req_url (sent w) @ [base_url c @ ''/usage'']"
    "map req_url (sent (snd (get_lists c tr w))) =
       map req_url (sent w) @ [base_url c @ ''/lists'']"
    by (simp_all add: verify_def verify_batch_def find_email_def find_by_domain_def
          find_by_company_def get_credits_def get_usage_def get_lists_def Let_def
          sent_get_data sent_request url_session_request compose_url_def lstrip_def)
  have upload:
    "map req_url (sent (snd (verify_batch_file c tr (Stream fd) name callback_url auto_start w))) =
       map req_url (sent w) @ [base_url c @ ''/verify/batch/upload'']"
    by (simp add: verify_batch_file_def Let_def)
  have ids:
    "map req_url (sent (snd (get_batch_status c tr batch_id w))) =
       map req_url (sent w) @ [base_url c @ ''/verify/batch/'' @ str_int batch_id]"
    "map req_url (sent (snd (get_batch_results c tr batch_id format filter' w))) =
       map req_url (sent w) @ [base_url c @ ''/verify/batch/'' @ str_int batch_id @ ''/results'']"
    "map req_url (sent (snd (delete_list c tr list_id w))) =
       map req_url (sent w) @ [base_url c @ ''/lists/'' @ str_int list_id]"
    by (simp_all add: get_batch_status_def get_batch_results_def delete_list_def Let_def
          sent_get_data sent_request url_session_request compose_url_def lstrip_def)
  show ?thesis
    using same kept form dropped junction ops upload ids by simp
qed

section \<open>Timeouts and other failures of the transport\<close>




section \<open>The handle of an uploaded file\<close>

text \<open>
  C8. Given a path that can be opened, \<open>verify_batch_file\<close> opens it (one new handle,
  which is the file part of the request) and, whatever the HTTP call does (return a
  success, return a response that raises a typed error, or raise), that handle is closed
  when the call is over. Given a stream, the set of open handles is what it was: the
  stream is the file part of the request, no handle is opened and none is closed.
\<close>

theorem upload_handle_closed:
  "(p \<in> set (disk w) \<longrightarrow>
      next_fd (snd (verify_batch_file c tr (Path p) name callback_url auto_start w))
        = Suc (next_fd w)
      \<and> map req_files (sent (snd (verify_batch_file c tr (Path p) name callback_url auto_start w)))
        = map req_files (sent w) @ [[(''file'', next_fd w)]]
      \<and> next_fd w \<notin> open_fds (snd (verify_batch_file c tr (Path p) name callback_url auto_start w))
      \<and> open_fds (snd (verify_batch_file c tr (Path p) name callback_url auto_start w))
        = open_fds w - {next_fd w})
   \<and> next_fd (snd (verify_batch_file c tr (Stream fd) name callback_url auto_start w))
        = next_fd w
   \<and> map req_files (sent (snd (verify_batch_file c tr (Stream fd) name callback_url auto_start w)))
        = map req_files (sent w) @ [[(''file'', fd)]]
   \<and> open_fds (snd (verify_batch_file c tr (Stream fd) name callback_url auto_start w))
        = open_fds w"
  by (simp add: verify_batch_file_def Let_def py_open_def py_close_def)


text \<open>
  The theorem on the three ways out of the call, for a path: a success, a 401 (a typed
  error raised inside \<open>try\<close>) and a timeout raised by the HTTP call; and for a stream
  that the caller holds open.
\<close>

theorem upload_handle_closed_witness:
  \<open>fst (verify_batch_file (EmailListChecker_init requests_defaults ''key'' None None)
          (always (Inr \<lparr>status_code = 200, headers = [], content = ''{"data": {"id": 42}}'',
                          json_result = Inr (PDict [(''data'', PDict [(''id'', PInt 42)])])\<rparr>))
          (Path ''emails.csv'') None None True
          \<lparr>sent = [], open_fds = {}, next_fd = 3, disk = [''emails.csv'']\<rparr>)
     = Inr (PDict [(''id'', PInt 42)])
   \<and> open_fds (snd (verify_batch_file (EmailListChecker_init requests_defaults ''key'' None None)
          (always (Inr \<lparr>status_code = 200, headers = [], content = ''{"data": {"id": 42}}'',
                          json_result = Inr (PDict [(''data'', PDict [(''id'', PInt 42)])])\<rparr>))
          (Path ''emails.csv'') None None True
          \<lparr>sent = [], open_fds = {}, next_fd = 3, disk = [''emails.csv'']\<rparr>))
     = {}
   \<and> fst (verify_batch_file (EmailListChecker_init requests_defaults ''key'' None None)
          (always (Inr \<lparr>status_code = 401, headers = [], content = [],
                          json_result = Inl ValueError\<rparr>))
          (Path ''emails.csv'') None None True
          \<lparr>sent = [], open_fds = {}, next_fd = 3, disk = [''emails.csv'']\<rparr>)
     = Inl (Sdk AuthenticationError
             [(''message'', PStr ''Invalid API key''), (''status_code'', PInt 401),
              (''response'', PDict [])])
   \<and> open_fds (snd (verify_batch_file (EmailListChecker_init requests_defaults ''key'' None None)
          (always (Inr \<lparr>status_code = 401, headers = [], content = [],
                          json_result = Inl ValueError\<rparr>))
          (Path ''emails.csv'') None None True
          \<lparr>sent = [], open_fds = {}, next_fd = 3, disk = [''emails.csv'']\<rparr>))
     = {}
   \<and> fst (verify_batch_file (EmailListChecker_init requests_defaults ''key'' None None)
          (always (Inl (Timeout ''Read timed out.'')))
          (Path ''emails.csv'') None None True
          \<lparr>sent = [], open_fds = {}, next_fd = 3, disk = [''emails.csv'']\<rparr>)
     = Inl (Timeout ''Read timed out.'')
   \<and> open_fds (snd (verify_batch_file (EmailListChecker_init requests_defaults ''key'' None None)
          (always (Inl (Timeout ''Read timed out.'')))
          (Path ''emails.csv'') None None True
          \<lparr>sent = [], open_fds = {}, next_fd = 3, disk = [''emails.csv'']\<rparr>))
     = {}
   \<and> open_fds (snd (verify_batch_file (EmailListChecker_init requests_defaults ''key'' None None)
          (always (Inl (Timeout ''Read timed out.'')))
          (Stream 3) None None True
          \<lparr>sent = [], open_fds = {3}, next_fd = 4, disk = []\<rparr>))
     = {3}\<close>
proof -
  let ?c = "EmailListChecker_init requests_defaults ''key'' None None"
  let ?w = "\<lparr>sent = [], open_fds = {}, next_fd = 3, disk = [''emails.csv'']\<rparr>"
  have closed: "open_fds (snd (verify_batch_file ?c tr (Path ''emails.csv'') None None True ?w))
                  = {}" for tr
    using upload_handle_closed
            [where p = "''emails.csv''" and w = ?w and c = ?c and tr = tr and name = None
               and callback_url = None and auto_start = True]
    by simp
  have kept: "open_fds (snd (verify_batch_file ?c tr (Stream 3) None None True
                 \<lparr>sent = [], open_fds = {3}, next_fd = 4, disk = []\<rparr>)) = {3}" for tr
    using upload_handle_closed
            [where fd = 3 and w = "\<lparr>sent = [], open_fds = {3}, next_fd = 4, disk = []\<rparr>"
               and c = ?c and tr = tr and name = None and callback_url = None
               and auto_start = True]
    by simp
  have success: \<open>fst (verify_batch_file ?c
          (always (Inr \<lparr>status_code = 200, headers = [], content = ''{"data": {"id": 42}}'',
                          json_result = Inr (PDict [(''data'', PDict [(''id'', PInt 42)])])\<rparr>))
          (Path ''emails.csv'') None None True ?w)
     = Inr (PDict [(''id'', PInt 42)])\<close>
    unfolding default_client by code_simp
  have typed: "fst (verify_batch_file ?c
          (always (Inr \<lparr>status_code = 401, headers = [], content = [],
                          json_result = Inl ValueError\<rparr>))
          (Path ''emails.csv'') None None True ?w)
     = Inl (Sdk AuthenticationError
             [(''message'', PStr ''Invalid API key''), (''status_code'', PInt 401),
              (''response'', PDict [])])"
    unfolding default_client by code_simp
  have raised: "fst (verify_batch_file ?c (always (Inl (Timeout ''Read timed out.'')))
          (Path ''emails.csv'') None None True ?w)
     = Inl (Timeout ''Read timed out.'')"
    unfolding default_client by code_simp
  show ?thesis
    using closed kept success typed raised by simp
qed

section \<open>Optional fields of the request payloads\<close>

text \<open>
  C9. The JSON payload that \<open>verify\<close> sends has the keys \<open>email\<close> and \<open>smtp_check\<close>, and
  the key \<open>timeout\<close> exactly when the timeout given is neither \<open>None\<close> nor 0. The payload
  that \<open>verify_batch\<close> sends has the keys \<open>emails\<close> and \<open>auto_start\<close>, then \<open>name\<close>
  exactly when the name given is neither \<open>None\<close> nor the empty string, then
  \<open>callback_url\<close> under the same condition.
\<close>

theorem falsy_options_omitted:
  "map req_json (sent (snd (verify c tr email tmo smtp_check w))) =
     map req_json (sent w) @
       [Some (PDict ([(''email'', PStr email), (''smtp_check'', PBool smtp_check)]
                     @ (if tmo = None \<or> tmo = Some 0 then []
                        else [(''timeout'', opt_int tmo)])))]
   \<and> map req_json (sent (snd (verify_batch c tr emails name callback_url auto_start w))) =
     map req_json (sent w) @
       [Some (PDict ([(''emails'', PList (map PStr emails)), (''auto_start'', PBool auto_start)]
                     @ (if name = None \<or> name = Some [] then []
                        else [(''name'', opt_str name)])
                     @ (if callback_url = None \<or> callback_url = Some [] then []
                        else [(''callback_url'', opt_str callback_url)])))]"
proof -
  have t: "truthy (opt_int tmo) = (\<not> (tmo = None \<or> tmo = Some 0))"
    by (cases tmo) (simp_all add: opt_int_def)
  have s: "truthy (opt_str x) = (\<not> (x = None \<or> x = Some []))" for x
    by (cases x) (simp_all add: opt_str_def)
  show ?thesis
    by (simp add: verify_def verify_batch_def Let_def sent_get_data sent_request
          session_request_def t s)
qed

text \<open>
  The theorem at \<open>timeout=0\<close> and at \<open>timeout=10\<close>, and at a batch with an empty name
  and a callback URL.
\<close>

theorem falsy_options_omitted_witness:
  "map req_json (sent (snd (verify (EmailListChecker_init requests_defaults ''key'' None None)
       (always (Inl (Timeout ''Read timed out.''))) ''a@x.com'' (Some 0) True empty_world)))
     = [Some (PDict [(''email'', PStr ''a@x.com''), (''smtp_check'', PBool True)])]
   \<and> map req_json (sent (snd (verify (EmailListChecker_init requests_defaults ''key'' None None)
       (always (Inl (Timeout ''Read timed out.''))) ''a@x.com'' (Some 10) True empty_world)))
     = [Some (PDict [(''email'', PStr ''a@x.com''), (''smtp_check'', PBool True),
                     (''timeout'', PInt 10)])]
   \<and> map req_json (sent (snd (verify_batch (EmailListChecker_init requests_defaults ''key'' None None)
       (always (Inl (Timeout ''Read timed out.''))) [''a@x.com'', ''b@x.com''] (Some [])
       (Some ''https://hook'') True empty_world)))
     = [Some (PDict [(''emails'', PList [PStr ''a@x.com'', PStr ''b@x.com'']),
                     (''auto_start'', PBool True),
                     (''callback_url'', PStr ''https://hook'')])]"
  using falsy_options_omitted
          [where c = "EmailListChecker_init requests_defaults ''key'' None None"
             and tr = "always (Inl (Timeout ''Read timed out.''))" and email = "''a@x.com''"
             and tmo = "Some 0" and smtp_check = True and w = empty_world]
        falsy_options_omitted
          [where c = "EmailListChecker_init requests_defaults ''key'' None None"
             and tr = "always (Inl (Timeout ''Read timed out.''))" and email = "''a@x.com''"
             and tmo = "Some 10" and smtp_check = True and w = empty_world
             and emails = "[''a@x.com'', ''b@x.com'']" and name = "Some []"
             and callback_url = "Some ''https://hook''" and auto_start = True]
  by (simp add: empty_world_def opt_int_def opt_str_def)

section \<open>The exception hierarchy\<close>

lemma issubclass_base: "issubclass cls EmailListCheckerException"
  by (cases cls) (simp_all add: issubclass_def)

lemma raise_with_shape:
  "raise_with cls (py_get (PDict kvs) k dflt) code data = Inl e \<Longrightarrow>
   except_catches EmailListCheckerException e
   \<and> map fst (exc_attrs e) = [''message'', ''status_code'', ''response'']"
  by (auto simp add: raise_with_def exception_init_def issubclass_base)

lemma except_clauses_shape:
  "e = Timeout m \<or> e = RequestException m' \<Longrightarrow>
   except_catches EmailListCheckerException (except_clauses c e)
   \<and> map fst (exc_attrs (except_clauses c e)) = [''message'', ''status_code'', ''response'']"
  by (auto simp add: exception_init_def issubclass_base)

lemma except_clauses_shape_kept:
  "except_catches EmailListCheckerException e
     \<and> map fst (exc_attrs e) = [''message'', ''status_code'', ''response''] \<Longrightarrow>
   except_catches EmailListCheckerException (except_clauses c e)
     \<and> map fst (exc_attrs (except_clauses c e)) = [''message'', ''status_code'', ''response'']"
  by (cases e) simp_all

lemma handle_response_shape:
  assumes retry: "status_code r = 429 \<longrightarrow> header_retry_after r = Inr n"
    and body: "content r = [] \<or> json_result r = Inr (PDict kvs)
               \<or> json_result r = Inl (RequestException m)"
    and raised: "handle_response r = Inl e"
  shows "e = RequestException m
         \<or> except_catches EmailListCheckerException e
           \<and> map fst (exc_attrs e) = [''message'', ''status_code'', ''response'']"
proof (cases "status_code r = 429")
  case True
  then show ?thesis
    using retry body raised
    by (auto simp add: handle_response_def json_or_def exception_init_def issubclass_base
          split: if_splits sum.splits)
next
  case False
  consider (empty) "json_or r (PDict []) = Inr (PDict [])"
    | (dict) "json_or r (PDict []) = Inr (PDict kvs)"
    | (undecodable) "json_or r (PDict []) = Inl (RequestException m)"
    using body by (cases "content r = []") (auto simp add: json_or_def)
  then show ?thesis
  proof cases
    case empty
    then show ?thesis
      using False raised raise_with_shape [where kvs = "[]" and e = e]
      by (auto simp add: handle_response_def split: if_splits)
  next
    case dict
    then show ?thesis
      using False raised raise_with_shape [where kvs = kvs and e = e]
      by (auto simp add: handle_response_def split: if_splits)
  next
    case undecodable
    then show ?thesis
      using False raised by (simp add: handle_response_def)
  qed
qed

text \<open>
  C10, as the code has it. Each class of the SDK is \<open>EmailListCheckerException\<close> or a
  direct subclass of it; an instance of any of them has exactly the attributes
  \<open>message\<close>, \<open>status_code\<close> and \<open>response\<close>, the first as given, the other two \<open>None\<close>
  unless given; an \<open>except EmailListCheckerException\<close> clause catches every one of them.
  And it catches whatever the shared routine raises, all of that shape, when the HTTP
  library raises only its own exceptions, the \<open>Retry-After\<close> header of a 429 response is
  absent or an integer, and the body is empty, decodes to a JSON object, or fails to
  decode with an exception of the HTTP library.
\<close>

theorem sdk_exceptions_share_base:
  assumes outcome: "tr (sent w) (session_request c meth endpoint kj kp kt) = out"
    and well_formed:
      "case out of
         Inl e \<Rightarrow> e = Timeout m \<or> e = RequestException m
       | Inr r \<Rightarrow>
           (status_code r = 429 \<longrightarrow> header_retry_after r = Inr n)
           \<and> (content r = [] \<or> json_result r = Inr (PDict kvs)
                \<or> json_result r = Inl (RequestException m))"
  shows
   "issubclass cls EmailListCheckerException
    \<and> exc_attrs (exception_init cls msg code resp) =
        [(''message'', msg),
         (''status_code'', case code of None \<Rightarrow> PNone | Some v \<Rightarrow> v),
         (''response'', case resp of None \<Rightarrow> PNone | Some v \<Rightarrow> v)]
    \<and> getattr (exception_init cls msg code resp) ''message'' = Some msg
    \<and> getattr (exception_init cls msg None None) ''status_code'' = Some PNone
    \<and> getattr (exception_init cls msg None None) ''response'' = Some PNone
    \<and> except_catches EmailListCheckerException (exception_init cls msg code resp)
    \<and> (case fst (EmailListChecker_request c tr meth endpoint kj kp kt w) of
          Inl e \<Rightarrow>
            except_catches EmailListCheckerException e
            \<and> map fst (exc_attrs e) = [''message'', ''status_code'', ''response'']
        | Inr v \<Rightarrow> True)"
proof -
  have classes:
    "issubclass cls EmailListCheckerException
     \<and> exc_attrs (exception_init cls msg code resp) =
        [(''message'', msg),
         (''status_code'', case code of None \<Rightarrow> PNone | Some v \<Rightarrow> v),
         (''response'', case resp of None \<Rightarrow> PNone | Some v \<Rightarrow> v)]
     \<and> getattr (exception_init cls msg code resp) ''message'' = Some msg
     \<and> getattr (exception_init cls msg None None) ''status_code'' = Some PNone
     \<and> getattr (exception_init cls msg None None) ''response'' = Some PNone
     \<and> except_catches EmailListCheckerException (exception_init cls msg code resp)"
    by (simp add: issubclass_base exception_init_def getattr_def)
  have routine:
    "case fst (EmailListChecker_request c tr meth endpoint kj kp kt w) of
       Inl e \<Rightarrow>
         except_catches EmailListCheckerException e
         \<and> map fst (exc_attrs e) = [''message'', ''status_code'', ''response'']
     | Inr v \<Rightarrow> True"
  proof (cases out)
    case (Inl e)
    then have "e = Timeout m \<or> e = RequestException m"
      using well_formed by simp
    then show ?thesis
      using outcome Inl except_clauses_shape [of e m m c]
      by (simp add: EmailListChecker_request_def Let_def)
  next
    case (Inr r)
    show ?thesis
    proof (cases "handle_response r")
      case (Inl e)
      have "e = RequestException m
            \<or> except_catches EmailListCheckerException e
              \<and> map fst (exc_attrs e) = [''message'', ''status_code'', ''response'']"
        using handle_response_shape [where r = r and n = n and kvs = kvs and m = m and e = e]
          well_formed Inr Inl
        by simp
      then have "except_catches EmailListCheckerException (except_clauses c e)
              \<and> map fst (exc_attrs (except_clauses c e)) = [''message'', ''status_code'', ''response'']"
      proof
        assume "e = RequestException m"
        then show ?thesis
          by (simp add: exception_init_def issubclass_base)
      next
        assume "except_catches EmailListCheckerException e
                \<and> map fst (exc_attrs e) = [''message'', ''status_code'', ''response'']"
        then show ?thesis
          by (rule except_clauses_shape_kept)
      qed
      then show ?thesis
        using outcome Inr Inl by (simp add: EmailListChecker_request_def Let_def)
    next
      case (Inr data)
      then show ?thesis
        using outcome \<open>out = Inr r\<close> by (simp add: EmailListChecker_request_def Let_def)
    qed
  qed
  show ?thesis
    using classes routine by simp
qed


text \<open>
  The theorem at a 402 response whose body carries an \<open>error\<close> field, and at a
  connection failure.
\<close>

theorem sdk_exceptions_share_base_witness:
  \<open>issubclass RateLimitError EmailListCheckerException
   \<and> exc_attrs (exception_init ValidationError (PStr ''Validation error'') None None) =
       [(''message'', PStr ''Validation error''), (''status_code'', PNone),
        (''response'', PNone)]
   \<and> caught_by EmailListCheckerException
       (fst (EmailListChecker_request (EmailListChecker_init requests_defaults ''key'' None None)
          (always (Inr \<lparr>status_code = 402, headers = [],
                          content = ''{"error": "No credits left"}'',
                          json_result = Inr (PDict [(''error'', PStr ''No credits left'')])\<rparr>))
          ''POST'' ''/verify'' None None None empty_world))
   \<and> caught_by EmailListCheckerException
       (fst (EmailListChecker_request (EmailListChecker_init requests_defaults ''key'' None None)
          (always (Inl (RequestException ''Connection refused'')))
          ''POST'' ''/verify'' None None None empty_world))\<close>
proof -
  let ?c = "EmailListChecker_init requests_defaults ''key'' None None"
  let ?r = \<open>\<lparr>status_code = 402, headers = [], content = ''{"error": "No credits left"}'',
             json_result = Inr (PDict [(''error'', PStr ''No credits left'')])\<rparr>\<close>
  have response:
    "fst (EmailListChecker_request ?c (always (Inr ?r))
            ''POST'' ''/verify'' None None None empty_world)
       = Inl (Sdk InsufficientCreditsError
               [(''message'', PStr ''No credits left''), (''status_code'', PInt 402),
                (''response'', PDict [(''error'', PStr ''No credits left'')])])"
    unfolding default_client by code_simp
  have failure:
    "fst (EmailListChecker_request ?c (always (Inl (RequestException ''Connection refused'')))
            ''POST'' ''/verify'' None None None empty_world)
       = Inl (Sdk EmailListCheckerException
               [(''message'', PStr ''Request failed: Connection refused''),
                (''status_code'', PNone), (''response'', PNone)])"
    unfolding default_client by code_simp
  show ?thesis
    using sdk_exceptions_share_base
            [where tr = "always (Inr ?r)" and out = "Inr ?r" and n = 60
               and kvs = "[(''error'', PStr ''No credits left'')]" and m = "[]"
               and c = ?c and w = empty_world and meth = "''POST''"
               and endpoint = "''/verify''" and kj = None and kp = None and kt = None
               and cls = RateLimitError and msg = "PStr ''Validation error''"
               and code = None and resp = None]
          sdk_exceptions_share_base
            [where tr = "always (Inl (RequestException ''Connection refused''))"
               and out = "Inl (RequestException ''Connection refused'')" and n = 60
               and kvs = "[]" and m = "''Connection refused''"
               and c = ?c and w = empty_world and meth = "''POST''"
               and endpoint = "''/verify''" and kj = None and kp = None and kt = None
               and cls = ValidationError and msg = "PStr ''Validation error''"
               and code = None and resp = None]
    by (simp add: always_apply response failure caught_by_def)
qed

text \<open>
  C10 as stated ("every error the shared request routine raises") fails at two
  responses: for a 429 whose \<open>Retry-After\<close> is an HTTP date the routine raises the
  \<open>ValueError\<close> of \<open>int\<close>, and for a 401 whose body is a JSON array the
  \<open>AttributeError\<close> of \<open>.get\<close>; neither is caught by
  \<open>except EmailListCheckerException\<close>.
\<close>

theorem sdk_exceptions_counterexample:
  "fst (EmailListChecker_request (EmailListChecker_init requests_defaults ''key'' None None)
          (always (Inr \<lparr>status_code = 429,
                          headers = [(''Retry-After'', ''Wed, 21 Oct 2026 07:28:00 GMT'')],
                          content = [], json_result = Inl ValueError\<rparr>))
          ''POST'' ''/verify'' None None None empty_world)
     = Inl ValueError
   \<and> \<not> caught_by EmailListCheckerException
       (fst (EmailListChecker_request (EmailListChecker_init requests_defaults ''key'' None None)
          (always (Inr \<lparr>status_code = 429,
                          headers = [(''Retry-After'', ''Wed, 21 Oct 2026 07:28:00 GMT'')],
                          content = [], json_result = Inl ValueError\<rparr>))
          ''POST'' ''/verify'' None None None empty_world))
   \<and> fst (EmailListChecker_request (EmailListChecker_init requests_defaults ''key'' None None)
          (always (Inr \<lparr>status_code = 401, headers = [],
                          content = ''[]'', json_result = Inr (PList [])\<rparr>))
          ''POST'' ''/verify'' None None None empty_world)
     = Inl AttributeError
   \<and> \<not> caught_by EmailListCheckerException
       (fst (EmailListChecker_request (EmailListChecker_init requests_defaults ''key'' None None)
          (always (Inr \<lparr>status_code = 401, headers = [],
                          content = ''[]'', json_result = Inr (PList [])\<rparr>))
          ''POST'' ''/verify'' None None None empty_world))"
  unfolding default_client by code_simp

end
